theory Spec2Isabelle
  imports Complex_Main "HOL-Library.Word"
begin

unbundle bit_operations_syntax

section \<open>Point-color resolution (renderables/colorMode.ts)\<close>

text \<open>
  A shallow embedding of \<^verbatim>\<open>colorMode.ts\<close>.

  \<^item> JavaScript numbers are modelled as \<^typ>\<open>real\<close>: the rounding of IEEE doubles
    (and of the \<^verbatim>\<open>Float32Array\<close> that holds the turbo table), \<^verbatim>\<open>NaN\<close> and the
    infinities are outside the model.
  \<^item> Objects that the module mutates in place and that are reachable from more
    than one place (the module-level scratch colors and the turbo table) live
    in an explicit \<open>state\<close>; a scratch color is named by a \<open>ref\<close>.
  \<^item> A caller-owned \<^verbatim>\<open>output\<close> color is passed in and returned updated.
  \<^item> A local or a parameter of the source whose name is also a field of a record
    below (or the record package's own \<open>fields\<close>) carries a prime (\<open>minValue'\<close>,
    \<open>flatColor'\<close>, \<open>fields'\<close>).
\<close>

subsection \<open>Data model\<close>

record ColorRGBA =
  r :: real
  g :: real
  b :: real
  a :: real

text \<open>
  \<^verbatim>\<open>colorMap\<close> has three values in its TypeScript type; \<open>Unrecognized\<close> stands for
  any other string met at run time, which line 82 of the source answers.
\<close>

datatype ColorMode = Flat | Gradient | Colormap | Rgb | Rgba | RgbaFields

datatype ColorMap = Turbo | Rainbow | Bluegold | Unrecognized string

record ColorModeSettings =
  colorMode :: ColorMode
  flatColor :: string
  colorField :: "string option"
  gradient :: "string \<times> string"
  colorMap :: ColorMap
  explicitAlpha :: real
  minValue :: "real option"
  maxValue :: "real option"

text \<open>The module-level scratch colors (lines 17, 18 and 678) and the module state.\<close>

datatype ref = tempColor1 | tempColor2 | tempColor

record state =
  colors :: "ref \<Rightarrow> ColorRGBA"
  TurboLookup :: "real list option"

text \<open>
  A conversion function reads the module state when it runs (a captured scratch
  color, the turbo table) and may build the table.  Its result is \<open>None\<close> when a
  read outside the turbo table has stored \<^verbatim>\<open>undefined\<close> in a channel of the output.
\<close>

type_synonym ColorConverter = "state \<Rightarrow> ColorRGBA \<Rightarrow> real \<Rightarrow> state \<times> ColorRGBA option"

text \<open>
  How a call of a JavaScript function ends: it returns a value, it falls off its
  end (the caller receives \<^verbatim>\<open>undefined\<close>), or it throws.
\<close>

datatype 'v completion = Return 'v | ReturnUndefined | Throw string

subsection \<open>The helpers imported from color.ts and math.ts\<close>

text \<open>
  Modelled from the spec: \<^verbatim>\<open>clamp\<close> of \<^verbatim>\<open>../math\<close>, which is not among the sources;
  the spec uses it as \<^verbatim>\<open>clamp(t,0,1)\<close>, value first and then the two bounds.
\<close>

definition clamp :: "real \<Rightarrow> real \<Rightarrow> real \<Rightarrow> real" where
  "clamp x lo hi = max lo (min hi x)"

text \<open>
  Modelled from the spec: \<^verbatim>\<open>SRGBToLinear\<close> of \<^verbatim>\<open>../color\<close>, the transfer function
  \<^verbatim>\<open>c \<le> 0.04045 ? c/12.92 : ((c+0.055)/1.055)^2.4\<close> of section 4.1.
\<close>

definition SRGBToLinear :: "real \<Rightarrow> real" where
  "SRGBToLinear c = (if c \<le> 0.04045 then c / 12.92 else ((c + 0.055) / 1.055) powr 2.4)"

text \<open>
  Modelled from the spec: \<^verbatim>\<open>stringToRgba(out, colorString)\<close> of \<^verbatim>\<open>../color\<close>.  It
  writes the parsed sRGB color into the color slot it is given and hands that
  same slot back (the source uses its result as a color; the spec has every
  color ``passed by mutable output reference'', written and never allocated).
  The CSS parser is a library outside the repository: it is the parameter
  \<open>css\<close>, a total function that gives the defined fallback color of section 7
  for a malformed string.
\<close>

definition stringToRgba :: "(string \<Rightarrow> ColorRGBA) \<Rightarrow> state \<Rightarrow> ref \<Rightarrow> string \<Rightarrow> state \<times> ref" where
  "stringToRgba css st output colorStr =
     (st\<lparr>colors := (colors st)(output := css colorStr)\<rparr>, output)"

text \<open>
  Modelled from the spec: \<^verbatim>\<open>rgbaToLinear(out, in)\<close> of \<^verbatim>\<open>../color\<close>: the transfer
  function on r, g and b, alpha passed through; the result is the slot \<open>out\<close>.
\<close>

definition rgbaToLinear :: "state \<Rightarrow> ref \<Rightarrow> ref \<Rightarrow> state \<times> ref" where
  "rgbaToLinear st output color =
     (let c = colors st color
      in (st\<lparr>colors := (colors st)(output :=
               \<lparr>r = SRGBToLinear (r c), g = SRGBToLinear (g c), b = SRGBToLinear (b c), a = a c\<rparr>)\<rparr>,
          output))"

text \<open>
  Modelled from the spec: \<^verbatim>\<open>rgbaGradient(out, colorA, colorB, frac)\<close> of \<^verbatim>\<open>../color\<close>:
  linear interpolation of each channel, alpha included.
\<close>

definition rgbaGradient :: "ColorRGBA \<Rightarrow> ColorRGBA \<Rightarrow> ColorRGBA \<Rightarrow> real \<Rightarrow> ColorRGBA" where
  "rgbaGradient output x y t =
     output\<lparr>r := r x + (r y - r x) * t,
            g := g x + (g y - g x) * t,
            b := b x + (b y - b x) * t,
            a := a x + (a y - a x) * t\<rparr>"

subsection \<open>getColorBgra (lines 97 to 103)\<close>

text \<open>
  \<^verbatim>\<open>Math.trunc\<close>, and \<^verbatim>\<open>colorValue >>> 0\<close>: ToUint32 truncates towards zero and
  reduces modulo \<open>2^32\<close>.
\<close>

definition Math_trunc :: "real \<Rightarrow> int" where
  "Math_trunc x = (if x < 0 then \<lceil>x\<rceil> else \<lfloor>x\<rfloor>)"

definition toUint32 :: "real \<Rightarrow> 32 word" where
  "toUint32 x = word_of_int (Math_trunc x)"

text \<open>
  \<^verbatim>\<open>&\<close> and \<^verbatim>\<open>>>>\<close> act on the 32-bit pattern; the result of \<^verbatim>\<open>>>>\<close> is read as
  unsigned before the division by 255.
\<close>

definition getColorBgra :: "ColorRGBA \<Rightarrow> real \<Rightarrow> ColorRGBA" where
  "getColorBgra output colorValue =
     (let num = toUint32 colorValue;
          output = output\<lparr>a := real (unat (drop_bit 24 (num AND 0xff000000))) / 255\<rparr>;
          output = output\<lparr>r := real (unat (drop_bit 16 (num AND 0x00ff0000))) / 255\<rparr>;
          output = output\<lparr>g := real (unat (drop_bit 8 (num AND 0x0000ff00))) / 255\<rparr>;
          output = output\<lparr>b := real (unat (drop_bit 0 (num AND 0x000000ff))) / 255\<rparr>
      in output)"

subsection \<open>bluegoldLookup (lines 105 to 371)\<close>

definition blueGoldColormapData :: "(nat \<times> nat \<times> nat) list" where
  "blueGoldColormapData =
     [
      (0, 126, 174), (4, 129, 177), (8, 132, 180), (12, 135, 184), (16, 138, 187), (20, 141, 190),
      (24, 144, 194), (28, 147, 197), (32, 150, 200), (36, 153, 204), (40, 156, 207), (44, 159, 210),
      (49, 162, 214), (53, 165, 217), (57, 168, 221), (61, 171, 224), (65, 174, 227), (69, 177, 231),
      (74, 180, 234), (85, 183, 235), (95, 187, 236), (106, 190, 237), (116, 194, 238), (127, 197, 240),
      (138, 200, 241), (148, 204, 242), (157, 206, 234), (165, 207, 217), (173, 207, 200), (181, 208, 183),
      (189, 209, 166), (197, 210, 149), (204, 211, 132), (212, 211, 115), (220, 212, 98), (228, 213, 81),
      (236, 214, 64), (244, 215, 47), (252, 215, 30), (254, 215, 30), (254, 215, 36), (254, 215, 43),
      (254, 215, 49), (254, 215, 55), (254, 215, 62), (254, 214, 68), (254, 214, 74), (254, 214, 80),
      (254, 214, 87), (254, 214, 93), (254, 214, 99), (255, 214, 106), (255, 213, 105), (255, 213, 105),
      (255, 213, 104), (255, 213, 104), (255, 212, 103), (255, 212, 103), (255, 212, 102), (255, 212, 102),
      (255, 211, 101), (255, 211, 101), (255, 211, 100), (255, 211, 100), (255, 210, 99), (255, 210, 99),
      (255, 210, 98), (255, 210, 98), (255, 210, 98), (255, 209, 97), (255, 209, 97), (255, 209, 96),
      (255, 209, 96), (255, 208, 95), (255, 208, 95), (255, 208, 94), (255, 208, 94), (254, 206, 92),
      (254, 204, 89), (254, 202, 86), (253, 200, 84), (253, 198, 81), (252, 196, 78), (252, 194, 75),
      (252, 192, 72), (251, 190, 70), (251, 188, 67), (250, 186, 64), (250, 184, 61), (250, 182, 58),
      (249, 180, 56), (249, 178, 53), (248, 176, 50), (248, 174, 47), (248, 172, 44), (247, 170, 42),
      (247, 168, 39), (246, 166, 36), (246, 164, 33), (246, 162, 30), (245, 160, 28), (245, 158, 25),
      (244, 156, 22), (244, 154, 19), (244, 152, 16), (243, 150, 14), (243, 148, 11), (243, 146, 8),
      (242, 144, 5), (242, 142, 2), (241, 140, 1), (241, 140, 1), (241, 140, 1), (241, 139, 1),
      (241, 139, 1), (241, 138, 1), (241, 138, 1), (241, 138, 1), (241, 137, 1), (240, 137, 1),
      (240, 136, 1), (240, 136, 1), (240, 136, 1), (240, 135, 1), (240, 135, 1), (240, 134, 1),
      (240, 134, 1), (240, 134, 1), (239, 133, 1), (239, 132, 1), (239, 131, 1), (238, 130, 1),
      (238, 128, 1), (238, 127, 1), (237, 126, 1), (237, 125, 1), (237, 124, 1), (236, 123, 1),
      (236, 122, 1), (236, 121, 1), (235, 119, 1), (235, 118, 1), (235, 117, 1), (234, 116, 1),
      (234, 115, 1), (234, 114, 1), (233, 113, 1), (233, 113, 1), (232, 113, 1), (232, 112, 1),
      (232, 112, 1), (231, 112, 1), (231, 112, 1), (230, 111, 1), (230, 111, 1), (230, 111, 1),
      (229, 111, 1), (229, 110, 1), (229, 110, 1), (228, 110, 1), (228, 109, 1), (227, 109, 1),
      (227, 109, 1), (227, 109, 1), (226, 108, 1), (225, 106, 1), (225, 105, 1), (224, 104, 1),
      (224, 103, 1), (223, 102, 1), (222, 101, 1), (222, 99, 1), (221, 98, 1), (220, 97, 1),
      (220, 96, 1), (219, 95, 1), (219, 93, 1), (218, 92, 1), (217, 91, 1), (217, 90, 1),
      (216, 89, 1), (216, 88, 1), (215, 87, 1), (214, 87, 1), (213, 87, 1), (213, 86, 1),
      (212, 86, 1), (211, 86, 1), (210, 85, 1), (210, 85, 1), (209, 85, 1), (208, 85, 1),
      (207, 84, 1), (207, 84, 1), (206, 84, 1), (205, 83, 1), (205, 83, 1), (204, 83, 1),
      (203, 83, 1), (202, 82, 1), (202, 82, 1), (201, 82, 1), (200, 81, 0), (199, 81, 0),
      (197, 80, 0), (196, 80, 0), (195, 79, 0), (194, 78, 0), (192, 78, 0), (191, 77, 0),
      (190, 77, 0), (189, 76, 0), (187, 76, 0), (186, 75, 0), (185, 74, 0), (184, 74, 0),
      (183, 73, 0), (181, 73, 0), (180, 72, 0), (179, 72, 0), (179, 72, 0), (178, 71, 0),
      (179, 72, 0), (179, 72, 0), (179, 72, 0), (179, 72, 0), (179, 72, 0), (179, 72, 0),
      (179, 72, 0), (179, 72, 0), (179, 72, 0), (179, 72, 0), (179, 72, 0), (179, 72, 0),
      (179, 72, 0), (179, 72, 0), (179, 72, 0), (179, 72, 0), (182, 70, 0), (186, 67, 0),
      (190, 65, 0), (194, 62, 0), (198, 60, 0), (202, 58, 0), (206, 55, 0), (210, 53, 0),
      (214, 51, 0), (218, 48, 0), (222, 46, 0), (226, 44, 0), (230, 41, 0), (234, 39, 0),
      (238, 37, 0), (242, 34, 0), (246, 32, 0), (250, 30, 0)
     ]"

text \<open>
  \<^verbatim>\<open>blueGoldColormapData[pct] != undefined\<close> holds exactly when the number \<open>pct\<close> is
  an index of the array: an integer from 0 up to its length.
\<close>

definition bluegoldLookup :: "ColorRGBA \<Rightarrow> real \<Rightarrow> ColorRGBA" where
  "bluegoldLookup output pct =
     (if of_int \<lfloor>pct\<rfloor> = pct \<and> 0 \<le> pct \<and> pct < real (length blueGoldColormapData)
      then (case blueGoldColormapData ! nat \<lfloor>pct\<rfloor> of
              (x, y, z) \<Rightarrow> output\<lparr>r := real x / 255.0, g := real y / 255.0, b := real z / 255.0, a := 1\<rparr>)
      else output)"

subsection \<open>rainbowLinear (lines 375 to 406)\<close>

text \<open>\<open>h\<close> lies in \<open>[1, 6]\<close>, where \<^verbatim>\<open>h % 1\<close> is the fractional part.\<close>

definition rainbowLinear :: "ColorRGBA \<Rightarrow> real \<Rightarrow> ColorRGBA" where
  "rainbowLinear output pct =
     (let h = (1.0 - clamp pct 0 1) * 5.0 + 1.0;
          i = \<lfloor>h\<rfloor>;
          f = frac h;
          f = (if i mod 2 < 1 then 1.0 - f else f);
          n = SRGBToLinear (1.0 - f);
          output =
            (if i \<le> 1 then output\<lparr>r := n, g := 0, b := 1\<rparr>
             else if i = 2 then output\<lparr>r := 0, g := n, b := 1\<rparr>
             else if i = 3 then output\<lparr>r := 0, g := 1, b := n\<rparr>
             else if i = 4 then output\<lparr>r := n, g := 1, b := 0\<rparr>
             else output\<lparr>r := 1, g := n, b := 0\<rparr>)
      in output\<lparr>a := 1\<rparr>)"

subsection \<open>turboLinear and turboLinearCached (lines 408 to 454)\<close>

type_synonym Vector4 = "real \<times> real \<times> real \<times> real"
type_synonym Vector2 = "real \<times> real"

definition kRedVec4 :: Vector4 where
  "kRedVec4 = (0.13572138, 4.6153926, - 42.66032258, 132.13108234)"

definition kGreenVec4 :: Vector4 where
  "kGreenVec4 = (0.09140261, 2.19418839, 4.84296658, - 14.18503333)"

definition kBlueVec4 :: Vector4 where
  "kBlueVec4 = (0.1066733, 12.64194608, - 60.58204836, 110.36276771)"

definition kRedVec2 :: Vector2 where
  "kRedVec2 = (- 152.94239396, 59.28637943)"

definition kGreenVec2 :: Vector2 where
  "kGreenVec2 = (4.27729857, 2.82956604)"

definition kBlueVec2 :: Vector2 where
  "kBlueVec2 = (- 89.90310912, 27.34824973)"

definition dot4 :: "Vector4 \<Rightarrow> Vector4 \<Rightarrow> real" where
  "dot4 u v = (case (u, v) of ((x, y, z, w), (x', y', z', w')) \<Rightarrow> x * x' + y * y' + z * z' + w * w')"

definition dot2 :: "Vector2 \<Rightarrow> Vector2 \<Rightarrow> real" where
  "dot2 u v = (case (u, v) of ((x, y), (x', y')) \<Rightarrow> x * x' + y * y')"

text \<open>
  The module-level vectors \<^verbatim>\<open>v4\<close> and \<^verbatim>\<open>v2\<close> are set anew before every read, so
  they are locals here: \<^verbatim>\<open>v2.set(v4.z, v4.w)\<close>, then \<^verbatim>\<open>v2.multiplyScalar(v4.z)\<close>.
\<close>

definition turboLinear :: "ColorRGBA \<Rightarrow> real \<Rightarrow> ColorRGBA" where
  "turboLinear output pct =
     (let x = clamp pct 0.0 1.0 * 0.99 + 0.01;
          v4 = (1, x, x * x, x * x * x);
          v2 = (case v4 of (_, _, z, w) \<Rightarrow> (z, w));
          v2 = (case v4 of (_, _, z, _) \<Rightarrow> (fst v2 * z, snd v2 * z))
      in output\<lparr>r := SRGBToLinear (clamp (dot4 v4 kRedVec4 + dot2 v2 kRedVec2) 0 1),
                 g := SRGBToLinear (clamp (dot4 v4 kGreenVec4 + dot2 v2 kGreenVec2) 0 1),
                 b := SRGBToLinear (clamp (dot4 v4 kBlueVec4 + dot2 v2 kBlueVec2) 0 1),
                 a := 1\<rparr>)"

definition TURBO_LOOKUP_SIZE :: nat where
  "TURBO_LOOKUP_SIZE = 65535"

text \<open>
  One round of the loop of lines 440 to 446, on the local \<^verbatim>\<open>tempColor\<close> (here
  \<open>tmp\<close>) and the table, and the whole loop on the zero-filled new array.
\<close>

definition fillTurboLookup :: "nat \<Rightarrow> ColorRGBA \<times> real list \<Rightarrow> ColorRGBA \<times> real list" where
  "fillTurboLookup i = (\<lambda>(tmp, tbl).
     (let tmp = turboLinear tmp (real i / real (TURBO_LOOKUP_SIZE - 1));
          offset = i * 3;
          tbl = tbl[offset + 0 := r tmp];
          tbl = tbl[offset + 1 := g tmp];
          tbl = tbl[offset + 2 := b tmp]
      in (tmp, tbl)))"

definition buildTurboLookup :: "real list" where
  "buildTurboLookup =
     snd (fold fillTurboLookup [0..<TURBO_LOOKUP_SIZE]
            (\<lparr>r = 0, g = 0, b = 0, a = 0\<rparr>, replicate (TURBO_LOOKUP_SIZE * 3) 0))"

text \<open>Reading a typed array: \<^verbatim>\<open>undefined\<close> (here \<open>None\<close>) outside its bounds.\<close>

definition typedArrayGet :: "real list \<Rightarrow> int \<Rightarrow> real option" where
  "typedArrayGet tbl i = (if 0 \<le> i \<and> i < int (length tbl) then Some (tbl ! nat i) else None)"

definition turboLinearCached :: "state \<Rightarrow> ColorRGBA \<Rightarrow> real \<Rightarrow> state \<times> ColorRGBA option" where
  "turboLinearCached st output pct =
     (let tbl = (case TurboLookup st of None \<Rightarrow> buildTurboLookup | Some t \<Rightarrow> t);
          st = st\<lparr>TurboLookup := Some tbl\<rparr>;
          offset = Math_trunc (pct * real (TURBO_LOOKUP_SIZE - 1)) * 3
      in (st,
          case (typedArrayGet tbl (offset + 0), typedArrayGet tbl (offset + 1),
                typedArrayGet tbl (offset + 2)) of
            (Some x, Some y, Some z) \<Rightarrow> Some (output\<lparr>r := x, g := y, b := z, a := 1\<rparr>)
          | _ \<Rightarrow> None))"

text \<open>
  The cached lookup as the spec words it, for comparison with the source: section
  4.3 has the table indexed by \<^verbatim>\<open>round(t \<times> (N-1))\<close>, \<^verbatim>\<open>Math.round\<close> being the floor
  of its argument plus one half.
\<close>

definition Math_round :: "real \<Rightarrow> int" where
  "Math_round x = \<lfloor>x + 1 / 2\<rfloor>"

definition turboLinearCached_spec :: "state \<Rightarrow> ColorRGBA \<Rightarrow> real \<Rightarrow> state \<times> ColorRGBA option" where
  "turboLinearCached_spec st output pct =
     (let tbl = (case TurboLookup st of None \<Rightarrow> buildTurboLookup | Some t \<Rightarrow> t);
          st = st\<lparr>TurboLookup := Some tbl\<rparr>;
          offset = Math_round (pct * real (TURBO_LOOKUP_SIZE - 1)) * 3
      in (st,
          case (typedArrayGet tbl (offset + 0), typedArrayGet tbl (offset + 1),
                typedArrayGet tbl (offset + 2)) of
            (Some x, Some y, Some z) \<Rightarrow> Some (output\<lparr>r := x, g := y, b := z, a := 1\<rparr>)
          | _ \<Rightarrow> None))"

subsection \<open>getColorConverter (lines 32 to 92)\<close>

definition Number_EPSILON :: real where
  "Number_EPSILON = 1 / 2 ^ 52"

text \<open>The local \<^verbatim>\<open>valueDelta\<close> of the gradient and the colormap case.\<close>

definition valueDelta :: "real \<Rightarrow> real \<Rightarrow> real" where
  "valueDelta minValue' maxValue' = max (maxValue' - minValue') Number_EPSILON"

text \<open>
  The switch has no case for \<open>RgbaFields\<close> (the TypeScript type of the parameter
  excludes it) and no default: in that mode control reaches the end of the
  function.  The flat and the gradient converter capture the scratch colors
  themselves, \<open>flatColor'\<close>, \<open>minColor\<close> and \<open>maxColor\<close> being what
  \<open>stringToRgba\<close> returned, and read them when they run.  The settings
  object belongs to the caller; a converter sees it as it was when the converter
  was built.
\<close>

definition getColorConverter ::
  "(string \<Rightarrow> ColorRGBA) \<Rightarrow> state \<Rightarrow> ColorModeSettings \<Rightarrow> real \<Rightarrow> real
     \<Rightarrow> state \<times> ColorConverter completion" where
  "getColorConverter css st settings minValue' maxValue' =
     (case colorMode settings of
        Flat \<Rightarrow>
          (let (st, flatColor') = stringToRgba css st tempColor1 (flatColor settings);
               (st, _) = rgbaToLinear st flatColor' flatColor'
           in (st, Return (\<lambda>st output _.
                 (st, Some (output\<lparr>r := r (colors st flatColor'),
                                    g := g (colors st flatColor'),
                                    b := b (colors st flatColor'),
                                    a := a (colors st flatColor')\<rparr>)))))
      | Gradient \<Rightarrow>
          (let valueDelta' = valueDelta minValue' maxValue';
               (st, minColor) = stringToRgba css st tempColor1 (fst (gradient settings));
               (st, maxColor) = stringToRgba css st tempColor2 (snd (gradient settings));
               (st, _) = rgbaToLinear st minColor minColor;
               (st, _) = rgbaToLinear st maxColor maxColor
           in (st, Return (\<lambda>st output colorValue.
                 (let frac = max 0 (min ((colorValue - minValue') / valueDelta') 1)
                  in (st, Some (rgbaGradient output (colors st minColor) (colors st maxColor) frac))))))
      | Colormap \<Rightarrow>
          (let valueDelta' = valueDelta minValue' maxValue'
           in (case colorMap settings of
                 Turbo \<Rightarrow>
                   (st, Return (\<lambda>st output colorValue.
                      (let frac = max 0 (min ((colorValue - minValue') / valueDelta') 1);
                           (st, output) = turboLinearCached st output frac
                       in (st, map_option (\<lambda>output. output\<lparr>a := explicitAlpha settings\<rparr>) output))))
               | Rainbow \<Rightarrow>
                   (st, Return (\<lambda>st output colorValue.
                      (let frac = max 0 (min ((colorValue - minValue') / valueDelta') 1);
                           output = rainbowLinear output frac
                       in (st, Some (output\<lparr>a := explicitAlpha settings\<rparr>)))))
               | Bluegold \<Rightarrow>
                   (st, Return (\<lambda>st output colorValue.
                      (let output = bluegoldLookup output colorValue
                       in (st, Some (output\<lparr>a := explicitAlpha settings\<rparr>)))))
               | Unrecognized name \<Rightarrow>
                   (st, Throw (''Unrecognized color map: '' @ name))))
      | Rgb \<Rightarrow>
          (st, Return (\<lambda>st output colorValue.
             (let output = getColorBgra output colorValue
              in (st, Some (output\<lparr>a := explicitAlpha settings\<rparr>)))))
      | Rgba \<Rightarrow>
          (st, Return (\<lambda>st output colorValue. (st, Some (getColorBgra output colorValue))))
      | RgbaFields \<Rightarrow> (st, ReturnUndefined))"

subsection \<open>Field auto-selection (lines 456 to 547)\<close>

text \<open>
  \<^verbatim>\<open>toLowerCase\<close> on the letters A to Z, which is all that the comparisons with
  the ASCII names below can see: no character outside ASCII has a lower-case
  form made of a letter of these names alone.
\<close>

definition toLowerCase :: "string \<Rightarrow> string" where
  "toLowerCase s =
     map (\<lambda>c. if 65 \<le> (of_char c :: nat) \<and> (of_char c :: nat) \<le> 90
               then char_of (of_char c + 32 :: nat) else c) s"

definition RGBA_PACKED_FIELDS :: "string set" where
  "RGBA_PACKED_FIELDS = {''rgb'', ''rgba''}"

definition INTENSITY_FIELDS :: "string set" where
  "INTENSITY_FIELDS = {''intensity'', ''i''}"

text \<open>
  The loop \<^verbatim>\<open>for (const field of fields) if (S.has(field.toLowerCase())) return field\<close>
  of lines 509 to 513 and 516 to 520; \<open>None\<close> when the loop ends without returning.
\<close>

fun firstFieldIn :: "string set \<Rightarrow> string list \<Rightarrow> string option" where
  "firstFieldIn S [] = None"
| "firstFieldIn S (field # fields') =
     (if toLowerCase field \<in> S then Some field else firstFieldIn S fields')"

definition bestColorByField :: "string list \<Rightarrow> bool \<Rightarrow> string option" where
  "bestColorByField fields' supportsPackedRgbModes =
     (case (if supportsPackedRgbModes then firstFieldIn RGBA_PACKED_FIELDS fields' else None) of
        Some field \<Rightarrow> Some field
      | None \<Rightarrow>
          (case firstFieldIn INTENSITY_FIELDS fields' of
             Some field \<Rightarrow> Some field
           | None \<Rightarrow>
               (case find (\<lambda>field. field = ''z'') fields' of
                  Some field \<Rightarrow> Some field
                | None \<Rightarrow> (case fields' of [] \<Rightarrow> None | field # _ \<Rightarrow> Some field))))"

text \<open>The loop of lines 530 to 545 on the four flags \<^verbatim>\<open>r\<close>, \<^verbatim>\<open>g\<close>, \<^verbatim>\<open>b\<close>, \<^verbatim>\<open>a\<close>.\<close>

fun separateRgbaFlags :: "string list \<Rightarrow> bool \<times> bool \<times> bool \<times> bool \<Rightarrow> bool \<times> bool \<times> bool \<times> bool" where
  "separateRgbaFlags [] flags = flags"
| "separateRgbaFlags (field # fields') (r', g', b', a') =
     separateRgbaFlags fields'
       (if field = ''red'' then (True, g', b', a')
        else if field = ''green'' then (r', True, b', a')
        else if field = ''blue'' then (r', g', True, a')
        else if field = ''alpha'' then (r', g', b', True)
        else (r', g', b', a'))"

definition hasSeparateRgbaFields :: "string list \<Rightarrow> bool" where
  "hasSeparateRgbaFields fields' =
     (case separateRgbaFlags fields' (False, False, False, False) of
        (r', g', b', a') \<Rightarrow> r' \<and> g' \<and> b' \<and> a')"

text \<open>
  \<^verbatim>\<open>if (!bestField) return\<close>: \<^verbatim>\<open>undefined\<close> and the empty string are the falsy
  values of a \<^verbatim>\<open>string | undefined\<close>.  \<open>supportsRgbaFieldsMode\<close> is optional.
\<close>

definition autoSelectColorSettings ::
  "ColorModeSettings \<Rightarrow> string list \<Rightarrow> bool \<Rightarrow> bool option \<Rightarrow> ColorModeSettings" where
  "autoSelectColorSettings output fields' supportsPackedRgbModes supportsRgbaFieldsMode =
     (case bestColorByField fields' supportsPackedRgbModes of
        None \<Rightarrow> output
      | Some bestField \<Rightarrow>
          if bestField = [] then output
          else
            (let output = output\<lparr>colorField := Some bestField\<rparr>;
                 output =
                   (if toLowerCase bestField = ''rgb'' then output\<lparr>colorMode := Rgb\<rparr>
                    else if toLowerCase bestField = ''rgba'' then output\<lparr>colorMode := Rgba\<rparr>
                    else output\<lparr>colorMode := Colormap, colorMap := Turbo\<rparr>)
             in if supportsRgbaFieldsMode = Some True
                then (if hasSeparateRgbaFields fields' then output\<lparr>colorMode := RgbaFields\<rparr>
                      else output)
                else output))"

text \<open>
  The selection as the spec words it (section 4.5), for comparison with the
  source.  \<open>priorityField\<close> is the priority order: a field whose lower-case
  form is \<^verbatim>\<open>rgb\<close> or \<^verbatim>\<open>rgba\<close> if the packed modes are supported, else a field
  whose lower-case form is \<^verbatim>\<open>intensity\<close> or \<^verbatim>\<open>i\<close>, else the field \<^verbatim>\<open>z\<close>, else the
  first field; none for the empty list.  \<open>autoSelectColorSettings_spec\<close> makes no
  change when no field is chosen, and otherwise stores the chosen field, sets
  the packed mode of \<^verbatim>\<open>rgb\<close> or \<^verbatim>\<open>rgba\<close> or else colormap with turbo, and last
  applies the override to rgba-fields that the same paragraph states.
\<close>

definition priorityField :: "string list \<Rightarrow> bool \<Rightarrow> string option" where
  "priorityField fields' supportsPackedRgbModes =
     (case (if supportsPackedRgbModes
            then find (\<lambda>field. toLowerCase field = ''rgb'' \<or> toLowerCase field = ''rgba'') fields'
            else None) of
        Some field \<Rightarrow> Some field
      | None \<Rightarrow>
          (case find (\<lambda>field. toLowerCase field = ''intensity'' \<or> toLowerCase field = ''i'') fields' of
             Some field \<Rightarrow> Some field
           | None \<Rightarrow>
               if ''z'' \<in> set fields' then Some ''z''
               else (case fields' of [] \<Rightarrow> None | field # _ \<Rightarrow> Some field)))"

definition autoSelectColorSettings_spec ::
  "ColorModeSettings \<Rightarrow> string list \<Rightarrow> bool \<Rightarrow> bool option \<Rightarrow> ColorModeSettings" where
  "autoSelectColorSettings_spec output fields' supportsPackedRgbModes supportsRgbaFieldsMode =
     (case priorityField fields' supportsPackedRgbModes of
        None \<Rightarrow> output
      | Some field \<Rightarrow>
          (let output = output\<lparr>colorField := Some field\<rparr>;
               output =
                 (if toLowerCase field = ''rgb'' then output\<lparr>colorMode := Rgb\<rparr>
                  else if toLowerCase field = ''rgba'' then output\<lparr>colorMode := Rgba\<rparr>
                  else output\<lparr>colorMode := Colormap, colorMap := Turbo\<rparr>)
           in if supportsRgbaFieldsMode = Some True
                 \<and> ''red'' \<in> set fields' \<and> ''green'' \<in> set fields'
                 \<and> ''blue'' \<in> set fields' \<and> ''alpha'' \<in> set fields'
              then output\<lparr>colorMode := RgbaFields\<rparr>
              else output))"

subsection \<open>colorHasTransparency (lines 678 to 698)\<close>

definition colorHasTransparency ::
  "(string \<Rightarrow> ColorRGBA) \<Rightarrow> state \<Rightarrow> ColorModeSettings \<Rightarrow> state \<times> bool" where
  "colorHasTransparency css st settings =
     (case colorMode settings of
        Flat \<Rightarrow>
          (let (st, c) = stringToRgba css st tempColor (flatColor settings)
           in (st, a (colors st c) < 1.0))
      | Gradient \<Rightarrow>
          (let (st, c) = stringToRgba css st tempColor (fst (gradient settings))
           in if a (colors st c) < 1.0 then (st, True)
              else (let (st, c) = stringToRgba css st tempColor (snd (gradient settings))
                    in (st, a (colors st c) < 1.0)))
      | Colormap \<Rightarrow> (st, explicitAlpha settings < 1.0)
      | Rgb \<Rightarrow> (st, explicitAlpha settings < 1.0)
      | Rgba \<Rightarrow> (st, True)
      | RgbaFields \<Rightarrow> (st, True))"

subsection \<open>The module when it is loaded, and sample inputs\<close>

text \<open>
  The scratch colors start as \<^verbatim>\<open>{ r: 0, g: 0, b: 0, a: 0 }\<close> and the turbo table
  as \<^verbatim>\<open>undefined\<close> (lines 17, 18, 431 and 678).
\<close>

definition initialState :: state where
  "initialState =
     \<lparr>colors = (\<lambda>_. \<lparr>r = 0, g = 0, b = 0, a = 0\<rparr>), TurboLookup = None\<rparr>"

text \<open>
  A CSS parser for the concrete instances below.  It reads the hexadecimal
  notations \<^verbatim>\<open>#rrggbb\<close> and \<^verbatim>\<open>#rrggbbaa\<close>, each channel a byte out of 255, and
  gives opaque white for any other string.
\<close>

definition hexDigit :: "char \<Rightarrow> nat option" where
  "hexDigit c =
     (let n = (of_char c :: nat)
      in if 48 \<le> n \<and> n \<le> 57 then Some (n - 48)
         else if 97 \<le> n \<and> n \<le> 102 then Some (n - 87)
         else if 65 \<le> n \<and> n \<le> 70 then Some (n - 55)
         else None)"

fun hexValue :: "nat \<Rightarrow> string \<Rightarrow> nat option" where
  "hexValue acc [] = Some acc"
| "hexValue acc (c # cs) =
     (case hexDigit c of None \<Rightarrow> None | Some d \<Rightarrow> hexValue (16 * acc + d) cs)"

definition cssHex :: "string \<Rightarrow> ColorRGBA" where
  "cssHex s =
     (let white = \<lparr>r = 1, g = 1, b = 1, a = 1\<rparr>
      in case s of
           [] \<Rightarrow> white
         | c # ds \<Rightarrow>
             if c = CHR ''#'' then
               (case hexValue 0 ds of
                  None \<Rightarrow> white
                | Some n \<Rightarrow>
                    if length ds = 8 then
                      \<lparr>r = real (n div 2 ^ 24 mod 256) / 255, g = real (n div 2 ^ 16 mod 256) / 255,
                       b = real (n div 2 ^ 8 mod 256) / 255, a = real (n mod 256) / 255\<rparr>
                    else if length ds = 6 then
                      \<lparr>r = real (n div 2 ^ 16 mod 256) / 255, g = real (n div 2 ^ 8 mod 256) / 255,
                       b = real (n mod 256) / 255, a = 1\<rparr>
                    else white)
             else white)"

definition sampleSettings :: ColorModeSettings where
  "sampleSettings =
     \<lparr>colorMode = Flat, flatColor = ''#ffffff'', colorField = None,
      gradient = (''#000000ff'', ''#ffffffff''), colorMap = Turbo, explicitAlpha = 1,
      minValue = None, maxValue = None\<rparr>"

section \<open>Verification\<close>

subsection \<open>The packed-color unpacker\<close>

lemma and_shifted_byte:
  "drop_bit k ((w::32 word) AND push_bit k (mask 8)) = take_bit 8 (drop_bit k w)"
  by (rule bit_word_eqI) (auto simp add: bit_simps dest: bit_imp_le_length)

lemma unat_byte: "unat (take_bit 8 (drop_bit k (w::32 word))) = unat w div 2 ^ k mod 256"
proof -
  have "unat (take_bit 8 (drop_bit k w)) = take_bit 8 (drop_bit k (unat w))"
    by (simp only: unsigned_take_bit_eq unat_drop_bit_eq)
  also have "\<dots> = unat w div 2 ^ k mod 256"
    by (simp add: take_bit_eq_mod drop_bit_eq_div)
  finally show ?thesis .
qed

lemma byte_masks:
  "(0xff000000 :: 32 word) = push_bit 24 (mask 8)"
  "(0x00ff0000 :: 32 word) = push_bit 16 (mask 8)"
  "(0x0000ff00 :: 32 word) = push_bit 8 (mask 8)"
  "(0x000000ff :: 32 word) = push_bit 0 (mask 8)"
  by (simp_all add: mask_eq_exp_minus_1)

lemma getColorBgra_bytes:
  "getColorBgra output v =
     \<lparr>r = real (unat (toUint32 v) div 2 ^ 16 mod 256) / 255,
      g = real (unat (toUint32 v) div 2 ^ 8 mod 256) / 255,
      b = real (unat (toUint32 v) mod 256) / 255,
      a = real (unat (toUint32 v) div 2 ^ 24 mod 256) / 255\<rparr>"
  unfolding getColorBgra_def Let_def byte_masks and_shifted_byte unat_byte
  by simp

lemma unat_toUint32_of_nat: "unat (toUint32 (real n)) = n mod 2 ^ 32"
proof -
  have "toUint32 (real n) = (of_nat n :: 32 word)"
    by (simp add: toUint32_def Math_trunc_def)
  thus ?thesis by (simp add: unat_of_nat)
qed

lemma split_byte:
  fixes q x :: nat
  assumes "x < 256"
  shows "(q * 256 + x) div 256 = q" "(q * 256 + x) mod 256 = x"
  using assms by simp_all

lemma pack_bytes:
  fixes x3 x2 x1 x0 :: nat
  assumes "x3 < 256" "x2 < 256" "x1 < 256" "x0 < 256"
  defines "n \<equiv> x3 * 2 ^ 24 + x2 * 2 ^ 16 + x1 * 2 ^ 8 + x0"
  shows "n mod 2 ^ 32 = n" "n div 2 ^ 24 mod 256 = x3" "n div 2 ^ 16 mod 256 = x2"
    "n div 2 ^ 8 mod 256 = x1" "n mod 256 = x0"
proof -
  have p: "(2::nat) ^ 8 = 256" "(2::nat) ^ 16 = 256 * 256" "(2::nat) ^ 24 = 256 * 256 * 256"
    by simp_all
  have n0: "n = ((x3 * 256 + x2) * 256 + x1) * 256 + x0"
    by (simp add: n_def algebra_simps)
  have d8: "n div 256 = (x3 * 256 + x2) * 256 + x1"
    unfolding n0 by (rule split_byte(1) [OF assms(4)])
  have d16: "n div 256 div 256 = x3 * 256 + x2"
    unfolding d8 by (rule split_byte(1) [OF assms(3)])
  have d24: "n div 256 div 256 div 256 = x3"
    unfolding d16 by (rule split_byte(1) [OF assms(2)])
  show "n mod 256 = x0"
    unfolding n0 by (rule split_byte(2) [OF assms(4)])
  show "n div 2 ^ 8 mod 256 = x1"
    unfolding p d8 by (rule split_byte(2) [OF assms(3)])
  show "n div 2 ^ 16 mod 256 = x2"
    unfolding p div_mult2_eq d16 by (rule split_byte(2) [OF assms(2)])
  show "n div 2 ^ 24 mod 256 = x3"
    unfolding p div_mult2_eq d24 using assms(1) by simp
  have "n < 2 ^ 32" using assms by (simp add: n0)
  thus "n mod 2 ^ 32 = n" by simp
qed

text \<open>
  Claim C8.  For every 32-bit unsigned integer \<open>w\<close>, read as \<^verbatim>\<open>0xAARRGGBB\<close>, the
  unpacker sets a, r, g and b to byte 3, byte 2, byte 1 and byte 0 of \<open>w\<close>, each
  divided by 255; so the four bytes \<open>av\<close>, \<open>rv\<close>, \<open>gv\<close>, \<open>bv\<close> packed into
  \<^verbatim>\<open>0xAARRGGBB\<close> come back divided by 255.  The function is total: it has no
  error path, and what the output color held before does not matter.
\<close>

theorem getColorBgra_unpacks_AARRGGBB:
  fixes av rv gv bv :: "8 word" and w :: "32 word"
  shows "getColorBgra output (real (unat w)) =
           \<lparr>r = real (unat w div 2 ^ 16 mod 256) / 255, g = real (unat w div 2 ^ 8 mod 256) / 255,
            b = real (unat w mod 256) / 255, a = real (unat w div 2 ^ 24) / 255\<rparr>
       \<and> getColorBgra output (real (unat av * 2 ^ 24 + unat rv * 2 ^ 16 + unat gv * 2 ^ 8 + unat bv)) =
           \<lparr>r = real (unat rv) / 255, g = real (unat gv) / 255,
            b = real (unat bv) / 255, a = real (unat av) / 255\<rparr>"
proof
  have w: "unat w < 2 ^ 32" using unsigned_less [of w] by simp
  hence "unat w mod 2 ^ 32 = unat w" "unat w div 2 ^ 24 mod 256 = unat w div 2 ^ 24"
    by simp_all
  thus "getColorBgra output (real (unat w)) =
           \<lparr>r = real (unat w div 2 ^ 16 mod 256) / 255, g = real (unat w div 2 ^ 8 mod 256) / 255,
            b = real (unat w mod 256) / 255, a = real (unat w div 2 ^ 24) / 255\<rparr>"
    by (simp only: getColorBgra_bytes unat_toUint32_of_nat)
next
  have bytes: "unat av < 256" "unat rv < 256" "unat gv < 256" "unat bv < 256"
    using unsigned_less [of av] unsigned_less [of rv] unsigned_less [of gv] unsigned_less [of bv]
    by simp_all
  show "getColorBgra output (real (unat av * 2 ^ 24 + unat rv * 2 ^ 16 + unat gv * 2 ^ 8 + unat bv)) =
           \<lparr>r = real (unat rv) / 255, g = real (unat gv) / 255,
            b = real (unat bv) / 255, a = real (unat av) / 255\<rparr>"
    by (simp only: getColorBgra_bytes unat_toUint32_of_nat pack_bytes [OF bytes])
qed

theorem getColorBgra_unpacks_AARRGGBB_witness:
  "getColorBgra \<lparr>r = 0, g = 0, b = 0, a = 0\<rparr>
     (real (unat (128 :: 8 word) * 2 ^ 24 + unat (255 :: 8 word) * 2 ^ 16
            + unat (10 :: 8 word) * 2 ^ 8 + unat (1 :: 8 word))) =
     \<lparr>r = 1, g = 10 / 255, b = 1 / 255, a = 128 / 255\<rparr>"
  using getColorBgra_unpacks_AARRGGBB [of "\<lparr>r = 0, g = 0, b = 0, a = 0\<rparr>" 0 128 255 10 1]
  by simp

subsection \<open>The converter factory: modes without a converter\<close>

text \<open>
  Claim C1, as amended.  The TypeScript type of the parameter excludes
  \<^verbatim>\<open>rgba-fields\<close>, and nothing checks the mode at run time: for every settings
  value with that mode the switch matches no case, and \<open>getColorConverter\<close>
  returns \<^verbatim>\<open>undefined\<close> without raising, the module state untouched.
\<close>

theorem getColorConverter_rgba_fields_undefined:
  "colorMode settings = RgbaFields \<Longrightarrow>
     getColorConverter css st settings minValue' maxValue' = (st, ReturnUndefined)"
  by (simp add: getColorConverter_def)

theorem getColorConverter_rgba_fields_undefined_witness:
  "colorMode (sampleSettings\<lparr>colorMode := RgbaFields\<rparr>) = RgbaFields
   \<and> getColorConverter cssHex initialState (sampleSettings\<lparr>colorMode := RgbaFields\<rparr>) 0 1
       = (initialState, ReturnUndefined)"
  using getColorConverter_rgba_fields_undefined
    [of "sampleSettings\<lparr>colorMode := RgbaFields\<rparr>" cssHex initialState 0 1]
  by simp

text \<open>
  The claim as the spec states it (the call fails fast, by raising or by
  returning an error) is false: here the call ends normally, and what it
  returns is neither an error nor a converter.
\<close>

theorem getColorConverter_rgba_fields_counterexample:
  "snd (getColorConverter cssHex initialState (sampleSettings\<lparr>colorMode := RgbaFields\<rparr>) 0 1)
     = ReturnUndefined"
  by (simp add: getColorConverter_def)

subsection \<open>The transparency classifier\<close>

text \<open>
  Claim C10.  For every settings value \<open>colorHasTransparency\<close> answers: in mode
  flat, whether the alpha of the parsed flat color is below 1; in mode gradient,
  whether the alpha of either parsed endpoint is below 1; in the modes colormap
  and rgb, whether \<open>explicitAlpha\<close> is below 1; in the modes rgba and
  rgba-fields, always true.
\<close>

theorem colorHasTransparency_by_mode:
  "snd (colorHasTransparency css st settings) =
     (case colorMode settings of
        Flat \<Rightarrow> a (css (flatColor settings)) < 1
      | Gradient \<Rightarrow> a (css (fst (gradient settings))) < 1 \<or> a (css (snd (gradient settings))) < 1
      | Colormap \<Rightarrow> explicitAlpha settings < 1
      | Rgb \<Rightarrow> explicitAlpha settings < 1
      | Rgba \<Rightarrow> True
      | RgbaFields \<Rightarrow> True)"
  by (cases "colorMode settings") (simp_all add: colorHasTransparency_def stringToRgba_def)

theorem colorHasTransparency_by_mode_witness:
  "snd (colorHasTransparency cssHex initialState (sampleSettings\<lparr>colorMode := Rgb, explicitAlpha := 1 / 2\<rparr>))
   \<and> snd (colorHasTransparency cssHex initialState (sampleSettings\<lparr>colorMode := RgbaFields\<rparr>))
   \<and> \<not> snd (colorHasTransparency cssHex initialState (sampleSettings\<lparr>colorMode := Colormap\<rparr>))
   \<and> snd (colorHasTransparency cssHex initialState (sampleSettings\<lparr>flatColor := ''#ff000080''\<rparr>))"
  using colorHasTransparency_by_mode [of cssHex initialState "sampleSettings\<lparr>colorMode := Rgb, explicitAlpha := 1 / 2\<rparr>"]
    colorHasTransparency_by_mode [of cssHex initialState "sampleSettings\<lparr>colorMode := RgbaFields\<rparr>"]
    colorHasTransparency_by_mode [of cssHex initialState "sampleSettings\<lparr>colorMode := Colormap\<rparr>"]
    colorHasTransparency_by_mode [of cssHex initialState "sampleSettings\<lparr>flatColor := ''#ff000080''\<rparr>"]
  by (simp add: sampleSettings_def cssHex_def hexDigit_def)

subsection \<open>The bluegold converter\<close>

lemma length_blueGoldColormapData: "length blueGoldColormapData = 256"
  by (simp add: blueGoldColormapData_def)

lemma bluegoldLookup_miss:
  assumes "\<not> (\<exists>k<256. pct = real k)"
  shows "bluegoldLookup output pct = output"
proof -
  have "\<not> (of_int \<lfloor>pct\<rfloor> = pct \<and> 0 \<le> pct \<and> pct < real (length blueGoldColormapData))"
  proof
    assume h: "of_int \<lfloor>pct\<rfloor> = pct \<and> 0 \<le> pct \<and> pct < real (length blueGoldColormapData)"
    then obtain j :: int where j: "pct = of_int j" by metis
    have "0 \<le> j" "j < 256" using h by (simp_all add: j length_blueGoldColormapData)
    hence "nat j < 256" "pct = real (nat j)" by (simp_all add: j)
    thus False using assms by blast
  qed
  thus ?thesis unfolding bluegoldLookup_def by (rule if_not_P)
qed

lemma bluegoldLookup_hit:
  assumes "k < 256"
  shows "bluegoldLookup output (real k) =
           (case blueGoldColormapData ! k of
              (x, y, z) \<Rightarrow> output\<lparr>r := real x / 255, g := real y / 255, b := real z / 255, a := 1\<rparr>)"
  using assms by (simp add: bluegoldLookup_def length_blueGoldColormapData)

lemma not_index_examples:
  "\<not> (\<exists>k<256. (256::real) = real k)" "\<not> (\<exists>k<256. (1 / 2 :: real) = real k)"
  "\<not> (\<exists>k<256. (- 1 :: real) = real k)"
proof -
  show "\<not> (\<exists>k<256. (256::real) = real k)" by auto
  show "\<not> (\<exists>k<256. (- 1 :: real) = real k)" by auto
  show "\<not> (\<exists>k<256. (1 / 2 :: real) = real k)"
  proof
    assume "\<exists>k<256. (1 / 2 :: real) = real k"
    then obtain k :: nat where "1 / 2 = real k" by blast
    hence "real (2 * k) = real 1" by simp
    hence "2 * k = 1" by (simp only: of_nat_eq_iff)
    thus False by presburger
  qed
qed


text \<open>
  Claim C5.  The converter built for mode colormap with map bluegold hands the
  raw input value to \<open>bluegoldLookup\<close>, whatever the range, and then overwrites
  alpha with \<open>explicitAlpha\<close>.  The table has 256 entries; at an index \<open>k\<close> of
  the table the lookup writes entry \<open>k\<close> divided by 255 and alpha 1; at any value
  that is not an integer from 0 to 255 the lookup returns the output color as it
  was, and nothing is thrown.
\<close>

theorem bluegold_converter_raw_lookup:
  assumes "colorMode settings = Colormap" and "colorMap settings = Bluegold"
  shows "(\<exists>f. getColorConverter css st settings minValue' maxValue' = (st, Return f)
            \<and> (\<forall>st' output colorValue.
                  f st' output colorValue =
                    (st', Some ((bluegoldLookup output colorValue)\<lparr>a := explicitAlpha settings\<rparr>))))
       \<and> length blueGoldColormapData = 256
       \<and> (\<forall>output k. k < 256 \<longrightarrow>
             bluegoldLookup output (real k) =
               (case blueGoldColormapData ! k of
                  (x, y, z) \<Rightarrow> output\<lparr>r := real x / 255, g := real y / 255, b := real z / 255, a := 1\<rparr>))
       \<and> (\<forall>output pct. \<not> (\<exists>k<256. pct = real k) \<longrightarrow> bluegoldLookup output pct = output)"
  using assms
  by (simp add: getColorConverter_def Let_def length_blueGoldColormapData
        bluegoldLookup_hit bluegoldLookup_miss)

theorem bluegold_converter_raw_lookup_witness:
  "(case snd (getColorConverter cssHex initialState
               (sampleSettings\<lparr>colorMode := Colormap, colorMap := Bluegold, explicitAlpha := 1 / 2\<rparr>) 0 1) of
      Return f \<Rightarrow>
        f initialState \<lparr>r = 0, g = 0, b = 0, a = 0\<rparr> 255 =
          (initialState, Some \<lparr>r = 250 / 255, g = 30 / 255, b = 0, a = 1 / 2\<rparr>)
        \<and> f initialState \<lparr>r = 0, g = 0, b = 0, a = 0\<rparr> 256 =
          (initialState, Some \<lparr>r = 0, g = 0, b = 0, a = 1 / 2\<rparr>)
        \<and> f initialState \<lparr>r = 0, g = 0, b = 0, a = 0\<rparr> (1 / 2) =
          (initialState, Some \<lparr>r = 0, g = 0, b = 0, a = 1 / 2\<rparr>)
    | _ \<Rightarrow> False)"
proof -
  let ?S = "sampleSettings\<lparr>colorMode := Colormap, colorMap := Bluegold, explicitAlpha := 1 / 2\<rparr>"
  have m: "colorMode ?S = Colormap" "colorMap ?S = Bluegold" by simp_all
  have e: "blueGoldColormapData ! 255 = (250, 30, 0)" by (simp add: blueGoldColormapData_def)
  note t = bluegold_converter_raw_lookup [OF m, of cssHex initialState 0 1]
  from t obtain f where f: "getColorConverter cssHex initialState ?S 0 1 = (initialState, Return f)"
    and run: "\<And>st' output colorValue. f st' output colorValue =
                (st', Some ((bluegoldLookup output colorValue)\<lparr>a := 1 / 2\<rparr>))"
    by auto
  have "bluegoldLookup \<lparr>r = 0, g = 0, b = 0, a = 0\<rparr> (real 255) =
      (case blueGoldColormapData ! 255 of
         (x, y, z) \<Rightarrow> \<lparr>r = 0, g = 0, b = 0, a = 0\<rparr>\<lparr>r := real x / 255, g := real y / 255, b := real z / 255, a := 1\<rparr>)"
    using t by (simp only:)
  hence hit: "bluegoldLookup \<lparr>r = 0, g = 0, b = 0, a = 0\<rparr> 255 =
      \<lparr>r = 250 / 255, g = 30 / 255, b = 0, a = 1\<rparr>"
    by (simp add: e)
  from t not_index_examples have miss:
    "bluegoldLookup \<lparr>r = 0, g = 0, b = 0, a = 0\<rparr> 256 = \<lparr>r = 0, g = 0, b = 0, a = 0\<rparr>"
    "bluegoldLookup \<lparr>r = 0, g = 0, b = 0, a = 0\<rparr> (1 / 2) = \<lparr>r = 0, g = 0, b = 0, a = 0\<rparr>"
    by blast+
  show ?thesis using hit miss by (simp add: f run)
qed

subsection \<open>The flat converter\<close>

lemma SRGBToLinear_0: "SRGBToLinear 0 = 0"
  by (simp add: SRGBToLinear_def)

lemma SRGBToLinear_1: "SRGBToLinear 1 = 1"
  by (simp add: SRGBToLinear_def)

lemma flat_converter:
  assumes "colorMode settings = Flat"
  shows "getColorConverter css st settings minValue' maxValue' =
          (st\<lparr>colors := (colors st)(tempColor1 :=
               \<lparr>r = SRGBToLinear (r (css (flatColor settings))),
                g = SRGBToLinear (g (css (flatColor settings))),
                b = SRGBToLinear (b (css (flatColor settings))),
                a = a (css (flatColor settings))\<rparr>)\<rparr>,
           Return (\<lambda>st output _. (st, Some (output\<lparr>r := r (colors st tempColor1),
                                    g := g (colors st tempColor1),
                                    b := b (colors st tempColor1),
                                    a := a (colors st tempColor1)\<rparr>))))"
  using assms
  by (simp add: getColorConverter_def stringToRgba_def rgbaToLinear_def Let_def)



subsection \<open>The gradient converter on a range of width zero\<close>

lemma Number_EPSILON_pos: "0 < Number_EPSILON"
  by (simp add: Number_EPSILON_def)

lemma valueDelta_pos: "0 < valueDelta minValue' maxValue'"
  using Number_EPSILON_pos by (simp add: valueDelta_def max_def)








subsection \<open>The scratch color captured by the flat converter\<close>

lemma cssHex_samples:
  "cssHex ''#ff0000ff'' = \<lparr>r = 1, g = 0, b = 0, a = 1\<rparr>"
  "cssHex ''#0000ffff'' = \<lparr>r = 0, g = 0, b = 1, a = 1\<rparr>"
  by (simp_all add: cssHex_def hexDigit_def)

text \<open>
  The converters of the modes colormap, rgb and rgba do not read the scratch
  colors: whatever those hold when such a converter runs, it yields the same.
\<close>

lemma turboLinearCached_without_scratch_colors:
  "snd (turboLinearCached (s\<lparr>colors := c\<rparr>) output pct) = snd (turboLinearCached s output pct)"
  by (simp add: turboLinearCached_def Let_def)

lemma converter_without_scratch_colors:
  assumes "getColorConverter css st settings minValue' maxValue' = (st', Return f)"
    and "colorMode settings \<noteq> Flat" and "colorMode settings \<noteq> Gradient"
  shows "snd (f (s\<lparr>colors := c\<rparr>) output colorValue) = snd (f s output colorValue)"
  using assms
  by (cases "colorMode settings"; cases "colorMap settings")
    (auto simp add: getColorConverter_def Let_def case_prod_beta
       turboLinearCached_without_scratch_colors)

text \<open>
  Claim C2 (a conversion function owns no mutable state but the lookup table,
  so what it yields does not depend on later calls of \<open>getColorConverter\<close>)
  does not hold of the code.  The flat converter keeps the module's scratch color
  \<open>tempColor1\<close> itself, and every later construction of a flat or a gradient
  converter overwrites that color.  Built for opaque red, the converter yields
  red; once a second converter has been built for opaque blue, the first one
  yields blue.
\<close>

theorem flat_converter_aliases_tempColor1:
  "(case getColorConverter cssHex initialState (sampleSettings\<lparr>flatColor := ''#ff0000ff''\<rparr>) 0 1 of
      (st1, Return f) \<Rightarrow>
        snd (f st1 \<lparr>r = 0, g = 0, b = 0, a = 0\<rparr> 0) = Some \<lparr>r = 1, g = 0, b = 0, a = 1\<rparr>
        \<and> snd (f (fst (getColorConverter cssHex st1 (sampleSettings\<lparr>flatColor := ''#0000ffff''\<rparr>) 0 1))
                 \<lparr>r = 0, g = 0, b = 0, a = 0\<rparr> 0)
            = Some \<lparr>r = 0, g = 0, b = 1, a = 1\<rparr>
    | _ \<Rightarrow> False)"
  by (simp add: flat_converter sampleSettings_def cssHex_samples SRGBToLinear_0 SRGBToLinear_1)

subsection \<open>The cached turbo colormap\<close>

lemma turboLinear_output_irrelevant: "turboLinear output pct = turboLinear output' pct"
  by (cases "output", cases "output'") (simp add: turboLinear_def Let_def)

lemma turboLinear_channels:
  "turboLinear output pct = \<lparr>r = r (turboLinear output pct), g = g (turboLinear output pct), b = b (turboLinear output pct), a = 1\<rparr>"
  by (cases "output") (simp add: turboLinear_def Let_def)

lemma length_fillTurboLookup: "length (snd (fillTurboLookup i s)) = length (snd s)"
  by (cases s) (simp add: fillTurboLookup_def Let_def)

lemma length_fold_fillTurboLookup: "length (snd (fold fillTurboLookup js s)) = length (snd s)"
  by (induction js arbitrary: s) (simp_all add: length_fillTurboLookup)

lemma fillTurboLookup_nth:
  assumes "3 * n + 2 < length (snd s)"
  shows "snd (fillTurboLookup n s) ! (3 * n) = r (turboLinear c (real n / real (TURBO_LOOKUP_SIZE - 1)))"
    and "snd (fillTurboLookup n s) ! (3 * n + 1) = g (turboLinear c (real n / real (TURBO_LOOKUP_SIZE - 1)))"
    and "snd (fillTurboLookup n s) ! (3 * n + 2) = b (turboLinear c (real n / real (TURBO_LOOKUP_SIZE - 1)))"
    and "j < 3 * n \<Longrightarrow> snd (fillTurboLookup n s) ! j = snd s ! j"
  using assms turboLinear_output_irrelevant [of "fst s" _ c]
  by (cases s; simp add: fillTurboLookup_def Let_def mult.commute)+

lemma fold_fillTurboLookup_nth:
  assumes "3 * n \<le> length (snd s)" and "i < n"
  shows "snd (fold fillTurboLookup [0..<n] s) ! (3 * i) = r (turboLinear c (real i / real (TURBO_LOOKUP_SIZE - 1)))
       \<and> snd (fold fillTurboLookup [0..<n] s) ! (3 * i + 1) = g (turboLinear c (real i / real (TURBO_LOOKUP_SIZE - 1)))
       \<and> snd (fold fillTurboLookup [0..<n] s) ! (3 * i + 2) = b (turboLinear c (real i / real (TURBO_LOOKUP_SIZE - 1)))"
  using assms
proof (induction n)
  case 0
  then show ?case by simp
next
  case (Suc n)
  let ?s = "fold fillTurboLookup [0..<n] s"
  have step: "fold fillTurboLookup [0..<Suc n] s = fillTurboLookup n ?s" by simp
  have len: "3 * n + 2 < length (snd ?s)"
    using Suc.prems(1) by (simp add: length_fold_fillTurboLookup)
  show ?case
  proof (cases "i = n")
    case True
    show ?thesis unfolding step True using fillTurboLookup_nth(1-3) [OF len] by blast
  next
    case False
    hence i: "i < n" using Suc.prems(2) by simp
    hence "3 * i < 3 * n" "3 * i + 1 < 3 * n" "3 * i + 2 < 3 * n" by simp_all
    hence "snd (fillTurboLookup n ?s) ! (3 * i) = snd ?s ! (3 * i)"
      "snd (fillTurboLookup n ?s) ! (3 * i + 1) = snd ?s ! (3 * i + 1)"
      "snd (fillTurboLookup n ?s) ! (3 * i + 2) = snd ?s ! (3 * i + 2)"
      using fillTurboLookup_nth(4) [OF len] by blast+
    moreover have "3 * n \<le> length (snd s)" using Suc.prems(1) by simp
    ultimately show ?thesis unfolding step using Suc.IH i by presburger
  qed
qed

lemma length_buildTurboLookup: "length buildTurboLookup = TURBO_LOOKUP_SIZE * 3"
  by (simp add: buildTurboLookup_def length_fold_fillTurboLookup)

lemma buildTurboLookup_nth:
  assumes "i < TURBO_LOOKUP_SIZE"
  shows "buildTurboLookup ! (3 * i) = r (turboLinear c (real i / real (TURBO_LOOKUP_SIZE - 1)))
       \<and> buildTurboLookup ! (3 * i + 1) = g (turboLinear c (real i / real (TURBO_LOOKUP_SIZE - 1)))
       \<and> buildTurboLookup ! (3 * i + 2) = b (turboLinear c (real i / real (TURBO_LOOKUP_SIZE - 1)))"
  unfolding buildTurboLookup_def
  by (rule fold_fillTurboLookup_nth) (simp_all add: assms)

lemma typedArrayGet_triple:
  assumes "i < TURBO_LOOKUP_SIZE" and "length tbl = TURBO_LOOKUP_SIZE * 3"
  shows "typedArrayGet tbl (int i * 3 + 0) = Some (tbl ! (3 * i))"
    and "typedArrayGet tbl (int i * 3 + 1) = Some (tbl ! (3 * i + 1))"
    and "typedArrayGet tbl (int i * 3 + 2) = Some (tbl ! (3 * i + 2))"
proof -
  have n: "nat (int i * 3) = 3 * i" "nat (int i * 3 + 1) = 3 * i + 1" "nat (int i * 3 + 2) = 3 * i + 2"
    by (simp_all add: nat_add_distrib nat_mult_distrib)
  have "int i * 3 + 2 < int (length tbl)" using assms by simp
  thus "typedArrayGet tbl (int i * 3 + 0) = Some (tbl ! (3 * i))"
    and "typedArrayGet tbl (int i * 3 + 1) = Some (tbl ! (3 * i + 1))"
    and "typedArrayGet tbl (int i * 3 + 2) = Some (tbl ! (3 * i + 2))"
    unfolding typedArrayGet_def using n by simp_all
qed

lemma trunc_index_in_range:
  assumes "0 \<le> pct" and "pct \<le> 1"
  shows "0 \<le> Math_trunc (pct * real (TURBO_LOOKUP_SIZE - 1))"
    and "nat (Math_trunc (pct * real (TURBO_LOOKUP_SIZE - 1))) < TURBO_LOOKUP_SIZE"
proof -
  define N where "N = TURBO_LOOKUP_SIZE - 1"
  have N: "N < TURBO_LOOKUP_SIZE" by (simp add: N_def TURBO_LOOKUP_SIZE_def)
  have x0: "0 \<le> pct * real N" using assms(1) by simp
  hence t: "Math_trunc (pct * real N) = \<lfloor>pct * real N\<rfloor>" by (simp add: Math_trunc_def)
  have "pct * real N \<le> 1 * real N"
    using assms(2) by (intro mult_right_mono) simp_all
  hence "\<lfloor>pct * real N\<rfloor> \<le> \<lfloor>real N\<rfloor>" by (intro floor_mono) simp
  hence hi: "\<lfloor>pct * real N\<rfloor> \<le> int N" by simp
  have lo: "0 \<le> \<lfloor>pct * real N\<rfloor>" using x0 by (simp only: zero_le_floor)
  show "0 \<le> Math_trunc (pct * real (TURBO_LOOKUP_SIZE - 1))"
    using lo unfolding N_def [symmetric] t .
  show "nat (Math_trunc (pct * real (TURBO_LOOKUP_SIZE - 1))) < TURBO_LOOKUP_SIZE"
    unfolding N_def [symmetric] t using hi lo N by linarith
qed

lemma turboLinearCached_lookup:
  assumes "0 \<le> pct" and "pct \<le> 1"
    and "length (case TurboLookup st of None \<Rightarrow> buildTurboLookup | Some t \<Rightarrow> t) = TURBO_LOOKUP_SIZE * 3"
  shows "turboLinearCached st output pct =
     (let tbl = (case TurboLookup st of None \<Rightarrow> buildTurboLookup | Some t \<Rightarrow> t);
          i = nat (Math_trunc (pct * real (TURBO_LOOKUP_SIZE - 1)))
      in (st\<lparr>TurboLookup := Some tbl\<rparr>,
          Some (output\<lparr>r := tbl ! (3 * i), g := tbl ! (3 * i + 1), b := tbl ! (3 * i + 2), a := 1\<rparr>)))"
proof -
  let ?tbl = "case TurboLookup st of None \<Rightarrow> buildTurboLookup | Some t \<Rightarrow> t"
  let ?i = "nat (Math_trunc (pct * real (TURBO_LOOKUP_SIZE - 1)))"
  note t = trunc_index_in_range [OF assms(1,2)]
  define k where "k = nat (Math_trunc (pct * real (TURBO_LOOKUP_SIZE - 1)))"
  have mk: "Math_trunc (pct * real (TURBO_LOOKUP_SIZE - 1)) = int k"
    using t(1) by (simp add: k_def)
  have k: "k < TURBO_LOOKUP_SIZE" using t(2) by (simp only: k_def)
  have "turboLinearCached st output pct =
          (st\<lparr>TurboLookup := Some ?tbl\<rparr>,
           Some (output\<lparr>r := ?tbl ! (3 * k), g := ?tbl ! (3 * k + 1), b := ?tbl ! (3 * k + 2), a := 1\<rparr>))"
    unfolding turboLinearCached_def Let_def
    by (simp only: mk typedArrayGet_triple [OF k assms(3)] prod.case option.case)
  thus ?thesis by (simp only: Let_def k_def)
qed

lemma turboLinearCached_keeps_table:
  "TurboLookup st = Some tbl \<Longrightarrow> fst (turboLinearCached st output pct) = st"
  by (simp add: turboLinearCached_def Let_def)

lemma turboLinearCached_builds_table:
  "TurboLookup st = None \<Longrightarrow>
     TurboLookup (fst (turboLinearCached st output pct)) = Some buildTurboLookup"
  by (simp add: turboLinearCached_def Let_def)

lemma turboLinearCached_in_range:
  assumes "0 \<le> pct" and "pct \<le> 1"
    and "TurboLookup st = None \<or> TurboLookup st = Some buildTurboLookup"
  defines "i \<equiv> nat (Math_trunc (pct * real (TURBO_LOOKUP_SIZE - 1)))"
  shows "turboLinearCached st output pct =
           (st\<lparr>TurboLookup := Some buildTurboLookup\<rparr>,
            Some (output\<lparr>r := buildTurboLookup ! (3 * i), g := buildTurboLookup ! (3 * i + 1),
                         b := buildTurboLookup ! (3 * i + 2), a := 1\<rparr>))"
    and "snd (turboLinearCached st output pct) =
           Some (turboLinear output (real i / real (TURBO_LOOKUP_SIZE - 1)))"
proof -
  have tbl: "(case TurboLookup st of None \<Rightarrow> buildTurboLookup | Some t \<Rightarrow> t) = buildTurboLookup"
    using assms(3) by auto
  have i: "i < TURBO_LOOKUP_SIZE"
    unfolding i_def using trunc_index_in_range(2) [OF assms(1,2)] .
  show run: "turboLinearCached st output pct =
               (st\<lparr>TurboLookup := Some buildTurboLookup\<rparr>,
                Some (output\<lparr>r := buildTurboLookup ! (3 * i), g := buildTurboLookup ! (3 * i + 1),
                             b := buildTurboLookup ! (3 * i + 2), a := 1\<rparr>))"
    using turboLinearCached_lookup [OF assms(1,2), of st "output"]
    by (simp add: tbl length_buildTurboLookup Let_def i_def)
  have "output\<lparr>r := buildTurboLookup ! (3 * i), g := buildTurboLookup ! (3 * i + 1),
                b := buildTurboLookup ! (3 * i + 2), a := 1\<rparr>
        = turboLinear output (real i / real (TURBO_LOOKUP_SIZE - 1))"
    using buildTurboLookup_nth [OF i, of "output"]
      turboLinear_channels [of "output" "real i / real (TURBO_LOOKUP_SIZE - 1)"]
    by (cases "output") simp
  thus "snd (turboLinearCached st output pct) =
           Some (turboLinear output (real i / real (TURBO_LOOKUP_SIZE - 1)))"
    by (simp add: run)
qed

text \<open>
  Only \<open>turboLinearCached\<close> writes the table, and only when there is none: in
  every state that the module can reach the table is absent or is the one that
  \<open>buildTurboLookup\<close> computes.
\<close>

lemma getColorConverter_keeps_table:
  "TurboLookup (fst (getColorConverter css st settings minValue' maxValue')) = TurboLookup st"
  by (cases "colorMode settings"; cases "colorMap settings")
    (simp_all add: getColorConverter_def stringToRgba_def rgbaToLinear_def Let_def)

lemma colorHasTransparency_keeps_table:
  "TurboLookup (fst (colorHasTransparency css st settings)) = TurboLookup st"
  by (cases "colorMode settings")
    (simp_all add: colorHasTransparency_def stringToRgba_def Let_def)

lemma turboLinearCached_table:
  "TurboLookup (fst (turboLinearCached st output pct)) =
     Some (case TurboLookup st of None \<Rightarrow> buildTurboLookup | Some t \<Rightarrow> t)"
  by (simp add: turboLinearCached_def Let_def)

lemma converter_table:
  assumes "getColorConverter css st settings minValue' maxValue' = (st', Return f)"
    and "TurboLookup s = None \<or> TurboLookup s = Some buildTurboLookup"
  shows "TurboLookup (fst (f s output colorValue)) = None
       \<or> TurboLookup (fst (f s output colorValue)) = Some buildTurboLookup"
  using assms
  by (cases "colorMode settings"; cases "colorMap settings")
    (auto simp add: getColorConverter_def stringToRgba_def rgbaToLinear_def Let_def
       case_prod_beta turboLinearCached_table)

lemma red_turboLinear_0:
  "r (turboLinear output 0) = SRGBToLinear (177739881329038343 / 1000000000000000000)"
  by (simp add: turboLinear_def clamp_def dot4_def dot2_def kRedVec4_def kRedVec2_def Let_def)

lemma red_turboLinear_1:
  "r (turboLinear output (1 / 65534)) =
     SRGBToLinear (214910946191775240208810317029525782326199
                   / 1208741363432547555475424000000000000000000)"
  by (simp add: turboLinear_def clamp_def dot4_def dot2_def kRedVec4_def kRedVec2_def Let_def)

lemma SRGBToLinear_strict_mono:
  assumes "0.04045 < x" and "x < y"
  shows "SRGBToLinear x < SRGBToLinear y"
proof -
  have "0 \<le> (x + 0.055) / 1.055" using assms(1) by simp
  moreover have "(x + 0.055) / 1.055 < (y + 0.055) / 1.055"
    using assms(2) by (simp add: divide_strict_right_mono)
  ultimately have "((x + 0.055) / 1.055) powr 2.4 < ((y + 0.055) / 1.055) powr 2.4"
    by (intro powr_less_mono2) simp_all
  thus ?thesis using assms by (simp add: SRGBToLinear_def)
qed

lemma red_entries_differ: "r (turboLinear output 0) \<noteq> r (turboLinear output' (1 / 65534))"
proof -
  have "r (turboLinear output 0) < r (turboLinear output' (1 / 65534))"
    unfolding red_turboLinear_0 red_turboLinear_1
    by (rule SRGBToLinear_strict_mono) simp_all
  thus ?thesis by simp
qed

lemma sample_trunc_index: "Math_trunc (3 / 327670 * real (TURBO_LOOKUP_SIZE - 1)) = 0"
  by (simp add: Math_trunc_def TURBO_LOOKUP_SIZE_def)

lemma sample_round_index: "Math_round (3 / 327670 * real (TURBO_LOOKUP_SIZE - 1)) = 1"
  by (simp add: Math_round_def TURBO_LOOKUP_SIZE_def)

text \<open>
  Claim C4, as amended.  The table has \<open>65535 \<times> 3\<close> cells.  A call that finds no
  table builds it; a call that finds a table leaves the whole module state as it
  is, so the table is never rebuilt.  For every \<open>t\<close> from 0 to 1 the call writes
  into the output the entry at index \<open>i = trunc (t \<times> (N - 1))\<close>, \<open>N = 65535\<close>, that is
  the cells \<open>3i\<close>, \<open>3i + 1\<close>, \<open>3i + 2\<close>, and alpha 1; that entry is what \<open>turboLinear\<close>
  computes at \<open>i / (N - 1)\<close>.
\<close>

theorem turboLinearCached_trunc_index:
  assumes "0 \<le> pct" and "pct \<le> 1"
    and "TurboLookup st = None \<or> TurboLookup st = Some buildTurboLookup"
  shows "(let i = nat (Math_trunc (pct * real (TURBO_LOOKUP_SIZE - 1)))
          in turboLinearCached st output pct =
               (st\<lparr>TurboLookup := Some buildTurboLookup\<rparr>,
                Some (output\<lparr>r := buildTurboLookup ! (3 * i), g := buildTurboLookup ! (3 * i + 1),
                             b := buildTurboLookup ! (3 * i + 2), a := 1\<rparr>))
             \<and> snd (turboLinearCached st output pct) =
                 Some (turboLinear output (real i / real (TURBO_LOOKUP_SIZE - 1))))
       \<and> length buildTurboLookup = 65535 * 3
       \<and> (\<forall>st' tbl output' pct'. TurboLookup st' = Some tbl \<longrightarrow>
             fst (turboLinearCached st' output' pct') = st')
       \<and> (\<forall>st' output' pct'. TurboLookup st' = None \<longrightarrow>
             TurboLookup (fst (turboLinearCached st' output' pct')) = Some buildTurboLookup)"
proof -
  have "length buildTurboLookup = 65535 * 3"
    by (simp add: length_buildTurboLookup TURBO_LOOKUP_SIZE_def)
  thus ?thesis
    using turboLinearCached_in_range [OF assms, of "output"]
      turboLinearCached_keeps_table turboLinearCached_builds_table
    by (simp add: Let_def)
qed

theorem turboLinearCached_trunc_index_witness:
  "(0::real) \<le> 3 / 327670 \<and> (3 / 327670 :: real) \<le> 1 \<and> TurboLookup initialState = None
   \<and> snd (turboLinearCached initialState \<lparr>r = 0, g = 0, b = 0, a = 0\<rparr> (3 / 327670)) =
        Some (turboLinear \<lparr>r = 0, g = 0, b = 0, a = 0\<rparr> 0)
   \<and> TurboLookup (fst (turboLinearCached initialState \<lparr>r = 0, g = 0, b = 0, a = 0\<rparr> (3 / 327670))) =
        Some buildTurboLookup"
proof -
  have h: "(0::real) \<le> 3 / 327670" "(3 / 327670 :: real) \<le> 1"
    "TurboLookup initialState = None \<or> TurboLookup initialState = Some buildTurboLookup"
    by (simp_all add: initialState_def)
  note t = turboLinearCached_trunc_index
    [OF h, of "\<lparr>r = 0, g = 0, b = 0, a = 0\<rparr>", unfolded Let_def sample_trunc_index]
  have "TurboLookup initialState = None" by (simp add: initialState_def)
  moreover from t [THEN conjunct1, THEN conjunct1]
  have "TurboLookup (fst (turboLinearCached initialState \<lparr>r = 0, g = 0, b = 0, a = 0\<rparr> (3 / 327670))) =
        Some buildTurboLookup"
    by simp
  ultimately show ?thesis using t [THEN conjunct1, THEN conjunct2] h(1,2) by simp
qed

text \<open>
  The claim as the spec states it (the entry at index \<open>round (t \<times> (N - 1))\<close>) is
  false: at \<open>t = 3 / 327670\<close>, where \<open>t \<times> (N - 1) = 0.6\<close>, the source reads entry 0
  and rounding would read entry 1, whose red channel is larger.
\<close>

theorem turboLinearCached_round_counterexample:
  "snd (turboLinearCached initialState \<lparr>r = 0, g = 0, b = 0, a = 0\<rparr> (3 / 327670))
     \<noteq> snd (turboLinearCached_spec initialState \<lparr>r = 0, g = 0, b = 0, a = 0\<rparr> (3 / 327670))"
proof -
  let ?c = "\<lparr>r = 0, g = 0, b = 0, a = 0\<rparr>"
  have h: "(0::real) \<le> 3 / 327670" "(3 / 327670 :: real) \<le> 1"
    "TurboLookup initialState = None \<or> TurboLookup initialState = Some buildTurboLookup"
    by (simp_all add: initialState_def)
  have code: "snd (turboLinearCached initialState ?c (3 / 327670)) = Some (turboLinear ?c 0)"
    using turboLinearCached_in_range(2) [OF h, of ?c, unfolded sample_trunc_index] by simp
  have one: "(1::nat) < TURBO_LOOKUP_SIZE" by (simp add: TURBO_LOOKUP_SIZE_def)
  have len: "length buildTurboLookup = TURBO_LOOKUP_SIZE * 3" by (rule length_buildTurboLookup)
  have get: "typedArrayGet buildTurboLookup 3 = Some (buildTurboLookup ! 3)"
    "typedArrayGet buildTurboLookup 4 = Some (buildTurboLookup ! 4)"
    "typedArrayGet buildTurboLookup 5 = Some (buildTurboLookup ! 5)"
    using typedArrayGet_triple [OF one len] by simp_all
  have red: "buildTurboLookup ! 3 = r (turboLinear ?c (1 / 65534))"
    using buildTurboLookup_nth [OF one, of ?c] by (simp add: TURBO_LOOKUP_SIZE_def)
  have spec: "snd (turboLinearCached_spec initialState ?c (3 / 327670)) =
      Some \<lparr>r = r (turboLinear ?c (1 / 65534)), g = buildTurboLookup ! 4, b = buildTurboLookup ! 5, a = 1\<rparr>"
    unfolding turboLinearCached_spec_def Let_def sample_round_index
    by (simp add: initialState_def get red)
  have "r (turboLinear ?c 0) \<noteq> r (turboLinear ?c (1 / 65534))"
    by (rule red_entries_differ)
  hence "turboLinear ?c 0
       \<noteq> \<lparr>r = r (turboLinear ?c (1 / 65534)), g = buildTurboLookup ! 4, b = buildTurboLookup ! 5, a = 1\<rparr>"
    by (metis ColorRGBA.select_convs(1))
  thus ?thesis by (simp only: code spec option.inject not_False_eq_True)
qed

subsection \<open>Field auto-selection\<close>

lemma firstFieldIn_find: "firstFieldIn S fields' = find (\<lambda>field. toLowerCase field \<in> S) fields'"
  by (induction fields') simp_all

lemma find_z: "find (\<lambda>field. field = ''z'') fields' = (if ''z'' \<in> set fields' then Some ''z'' else None)"
  by (induction fields') auto

lemma bestColorByField_priority:
  "bestColorByField fields' supportsPackedRgbModes = priorityField fields' supportsPackedRgbModes"
  unfolding bestColorByField_def priorityField_def firstFieldIn_find find_z
    RGBA_PACKED_FIELDS_def INTENSITY_FIELDS_def
  by (simp split: option.splits)

lemma separateRgbaFlags_sets:
  "separateRgbaFlags fields' (r', g', b', a') =
     (r' \<or> ''red'' \<in> set fields', g' \<or> ''green'' \<in> set fields',
      b' \<or> ''blue'' \<in> set fields', a' \<or> ''alpha'' \<in> set fields')"
  by (induction fields' arbitrary: r' g' b' a') auto

lemma hasSeparateRgbaFields_iff:
  "hasSeparateRgbaFields fields' \<longleftrightarrow>
     ''red'' \<in> set fields' \<and> ''green'' \<in> set fields' \<and> ''blue'' \<in> set fields' \<and> ''alpha'' \<in> set fields'"
  by (simp add: hasSeparateRgbaFields_def separateRgbaFlags_sets)

text \<open>
  On every list \<open>bestColorByField\<close> picks the field of the priority order, and
  unless the field picked is the empty string \<open>autoSelectColorSettings\<close> does
  what the spec says.
\<close>

lemma autoSelectColorSettings_priority:
  "bestColorByField fields' supportsPackedRgbModes = priorityField fields' supportsPackedRgbModes
   \<and> (priorityField fields' supportsPackedRgbModes \<noteq> Some [] \<longrightarrow>
        autoSelectColorSettings output fields' supportsPackedRgbModes supportsRgbaFieldsMode =
          autoSelectColorSettings_spec output fields' supportsPackedRgbModes supportsRgbaFieldsMode)"
  by (simp add: autoSelectColorSettings_def autoSelectColorSettings_spec_def
        bestColorByField_priority hasSeparateRgbaFields_iff Let_def split: option.splits)

lemma autoSelectColorSettings_priority_examples:
  "priorityField [''foo'', ''RGB'', ''intensity''] True = Some ''RGB''
   \<and> autoSelectColorSettings sampleSettings [''foo'', ''RGB'', ''intensity''] True None =
     sampleSettings\<lparr>colorField := Some ''RGB'', colorMode := Rgb\<rparr>
   \<and> autoSelectColorSettings sampleSettings [''foo'', ''Intensity''] False None =
     sampleSettings\<lparr>colorField := Some ''Intensity'', colorMode := Colormap, colorMap := Turbo\<rparr>
   \<and> autoSelectColorSettings sampleSettings [''x'', ''y'', ''z''] True None =
     sampleSettings\<lparr>colorField := Some ''z'', colorMode := Colormap, colorMap := Turbo\<rparr>
   \<and> autoSelectColorSettings sampleSettings [''x'', ''y''] True None =
     sampleSettings\<lparr>colorField := Some ''x'', colorMode := Colormap, colorMap := Turbo\<rparr>
   \<and> autoSelectColorSettings sampleSettings [] True (Some True) = sampleSettings"
  using autoSelectColorSettings_priority [of "[''foo'', ''RGB'', ''intensity'']" True sampleSettings None]
    autoSelectColorSettings_priority [of "[''foo'', ''Intensity'']" False sampleSettings None]
    autoSelectColorSettings_priority [of "[''x'', ''y'', ''z'']" True sampleSettings None]
    autoSelectColorSettings_priority [of "[''x'', ''y'']" True sampleSettings None]
    autoSelectColorSettings_priority [of "[]" True sampleSettings "Some True"]
  by (simp add: autoSelectColorSettings_spec_def priorityField_def toLowerCase_def char_of_def
        bit_Suc_0_iff)

text \<open>
  Claim C6 (the field is picked by the priority order, the first field of the
  list when nothing else matches, and only the empty list leaves the settings
  unchanged) does not hold of the code.  \<open>bestColorByField\<close> does pick the first
  field, but the test \<^verbatim>\<open>!bestField\<close> of line 476 is also true of the empty
  string: for the list that holds the empty string alone the function returns at
  once and changes nothing, where the claim stores that field and sets colormap
  with turbo.
\<close>

theorem autoSelectColorSettings_ignores_empty_name:
  "bestColorByField [''''] False = Some ''''
   \<and> autoSelectColorSettings sampleSettings [''''] False None = sampleSettings
   \<and> autoSelectColorSettings_spec sampleSettings [''''] False None =
       sampleSettings\<lparr>colorField := Some '''', colorMode := Colormap, colorMap := Turbo\<rparr>
   \<and> autoSelectColorSettings sampleSettings [''''] False None
       \<noteq> autoSelectColorSettings_spec sampleSettings [''''] False None"
  by (simp add: autoSelectColorSettings_def autoSelectColorSettings_spec_def bestColorByField_def
        priorityField_def INTENSITY_FIELDS_def toLowerCase_def sampleSettings_def)

text \<open>
  When a field with a name is picked, the override has the last word: with
  \<open>supportsRgbaFieldsMode\<close> on and the four names in the list, the mode ends as
  rgba-fields.
\<close>

lemma autoSelectColorSettings_rgba_fields_override:
  assumes "supportsRgbaFieldsMode = Some True"
    and "''red'' \<in> set fields'" "''green'' \<in> set fields'" "''blue'' \<in> set fields'" "''alpha'' \<in> set fields'"
    and "priorityField fields' supportsPackedRgbModes \<noteq> Some []"
  shows "colorMode (autoSelectColorSettings output fields' supportsPackedRgbModes supportsRgbaFieldsMode)
           = RgbaFields"
proof -
  from assms(2) have "fields' \<noteq> []" by auto
  hence "priorityField fields' supportsPackedRgbModes \<noteq> None"
    by (cases fields') (simp_all add: priorityField_def split: option.splits)
  then obtain field where f: "priorityField fields' supportsPackedRgbModes = Some field" by blast
  with assms(6) have "field \<noteq> []" by simp
  thus ?thesis
    using assms(1-5) f
    by (simp add: autoSelectColorSettings_def bestColorByField_priority hasSeparateRgbaFields_iff Let_def)
qed

text \<open>
  Claim C7 (with \<open>supportsRgbaFieldsMode\<close> on and \<^verbatim>\<open>red\<close>, \<^verbatim>\<open>green\<close>, \<^verbatim>\<open>blue\<close>, \<^verbatim>\<open>alpha\<close>
  in the list the final mode is rgba-fields, whatever field the priority order
  picked) does not hold of the code.  The return of line 477 comes before the
  override: when the picked field is the empty string, here the first field of a
  list without \<^verbatim>\<open>intensity\<close>, \<^verbatim>\<open>i\<close> and \<^verbatim>\<open>z\<close>, the function returns at once and the
  mode stays what it was, although the list holds the four names.
\<close>

theorem autoSelectColorSettings_skips_rgba_fields_override:
  "hasSeparateRgbaFields ['''', ''red'', ''green'', ''blue'', ''alpha'']
   \<and> colorMode sampleSettings = Flat
   \<and> autoSelectColorSettings sampleSettings ['''', ''red'', ''green'', ''blue'', ''alpha'']
         False (Some True) = sampleSettings"
  by (simp add: autoSelectColorSettings_def bestColorByField_def hasSeparateRgbaFields_def
        INTENSITY_FIELDS_def toLowerCase_def sampleSettings_def char_of_def bit_Suc_0_iff)

end
